theory Spec2Isabelle
  imports Complex_Main "HOL-Library.Product_Lexorder"
begin

section \<open>Heading detection of the structure extractor\<close>

text \<open>
  A shallow embedding of \<^verbatim>\<open>heading_detector.py\<close> (class SmartHeadingDetector) and of the
  font analysis of \<^verbatim>\<open>pdf_extractor.py\<close> (class AdvancedPDFExtractor).

  Conventions of the embedding.
  \<^item> A Python float or int that holds a font size, a position or a score is a \<open>rat\<close>:
    the arithmetic of the source is a few sums and products of short decimals, taken
    here exactly.
  \<^item> A text is a \<open>string\<close> of ASCII characters; the character classes below are the ones
    Python's \<open>str\<close> methods and \<open>re\<close> classes have on ASCII.
  \<^item> An element is a Python dict: every key may be absent, so every field is an option,
    \<open>element['k']\<close> raises KeyError on an absent key and \<open>element.get('k', d)\<close> gives \<open>d\<close>.
  \<^item> A raise of the source is a value \<open>Inl err\<close> of the result.
  \<^item> The attribute \<open>self.font_hierarchy\<close> of the detector is the state: \<open>None\<close> while the
    attribute does not exist, \<open>Some h\<close> once it was assigned the dict \<open>h\<close>.
\<close>

subsection \<open>Errors\<close>

datatype error = KeyError string | IndexError | AttributeError string

definition err_bind :: "error + 'a \<Rightarrow> ('a \<Rightarrow> error + 'b) \<Rightarrow> error + 'b" where
  "err_bind m f = (case m of Inl e \<Rightarrow> Inl e | Inr x \<Rightarrow> f x)"

definition key_lookup :: "string \<Rightarrow> 'a option \<Rightarrow> error + 'a" where
  \<comment> \<open>\<open>d['k']\<close>\<close>
  "key_lookup k v = (case v of None \<Rightarrow> Inl (KeyError k) | Some x \<Rightarrow> Inr x)"

definition get_default :: "'a option \<Rightarrow> 'a \<Rightarrow> 'a" where
  \<comment> \<open>\<open>d.get('k', default)\<close>\<close>
  "get_default v d = (case v of None \<Rightarrow> d | Some x \<Rightarrow> x)"

subsection \<open>Strings\<close>

definition is_space :: "char \<Rightarrow> bool" where
  \<comment> \<open>\<open>\s\<close>, \<open>str.isspace\<close>: tab, LF, VT, FF, CR, the separators 0x1C to 0x1F, space\<close>
  "is_space c = (c \<in> set [CHR 0x09, CHR 0x0A, CHR 0x0B, CHR 0x0C, CHR 0x0D,
                            CHR 0x1C, CHR 0x1D, CHR 0x1E, CHR 0x1F, CHR 0x20])"

definition is_digit :: "char \<Rightarrow> bool" where
  "is_digit c = (c \<in> set ''0123456789'')"

definition is_lower :: "char \<Rightarrow> bool" where
  "is_lower c = (c \<in> set ''abcdefghijklmnopqrstuvwxyz'')"

definition is_upper :: "char \<Rightarrow> bool" where
  "is_upper c = (c \<in> set ''ABCDEFGHIJKLMNOPQRSTUVWXYZ'')"

definition is_word :: "char \<Rightarrow> bool" where
  \<comment> \<open>\<open>\w\<close>\<close>
  "is_word c = (is_lower c \<or> is_upper c \<or> is_digit c \<or> c = CHR ''_'')"

definition to_lower :: "char \<Rightarrow> char" where
  "to_lower c = (case map_of (zip ''ABCDEFGHIJKLMNOPQRSTUVWXYZ'' ''abcdefghijklmnopqrstuvwxyz'') c
                 of None \<Rightarrow> c | Some l \<Rightarrow> l)"

definition to_upper :: "char \<Rightarrow> char" where
  "to_upper c = (case map_of (zip ''abcdefghijklmnopqrstuvwxyz'' ''ABCDEFGHIJKLMNOPQRSTUVWXYZ'') c
                 of None \<Rightarrow> c | Some u \<Rightarrow> u)"

definition lower :: "string \<Rightarrow> string" where
  "lower s = map to_lower s"

definition strip :: "string \<Rightarrow> string" where
  "strip s = rev (dropWhile is_space (rev (dropWhile is_space s)))"

fun split_from :: "string \<Rightarrow> string \<Rightarrow> string list" where
  "split_from w [] = (if w = [] then [] else [rev w])"
| "split_from w (c # cs) =
     (if is_space c then (if w = [] then split_from [] cs else rev w # split_from [] cs)
      else split_from (c # w) cs)"

definition split :: "string \<Rightarrow> string list" where
  \<comment> \<open>\<open>text.split()\<close>: the maximal runs of characters that are not whitespace\<close>
  "split s = split_from [] s"

fun starts_with :: "string \<Rightarrow> string \<Rightarrow> bool" where
  "starts_with [] s = True"
| "starts_with (k # ks) [] = False"
| "starts_with (k # ks) (c # cs) = (k = c \<and> starts_with ks cs)"

fun contains :: "string \<Rightarrow> string \<Rightarrow> bool" where
  \<comment> \<open>\<open>keyword in text\<close>\<close>
  "contains k [] = (k = [])"
| "contains k (c # cs) = (starts_with k (c # cs) \<or> contains k cs)"

definition endswith_dot :: "string \<Rightarrow> bool" where
  "endswith_dot s = (s \<noteq> [] \<and> last s = CHR ''.'')"

definition isupper :: "string \<Rightarrow> bool" where
  "isupper s = (list_ex is_upper s \<and> \<not> list_ex is_lower s)"

definition islower :: "string \<Rightarrow> bool" where
  "islower s = (list_ex is_lower s \<and> \<not> list_ex is_upper s)"

fun title_from :: "bool \<Rightarrow> string \<Rightarrow> string" where
  "title_from previous_is_cased [] = []"
| "title_from previous_is_cased (c # cs) =
     (if previous_is_cased then to_lower c else to_upper c)
       # title_from (is_lower c \<or> is_upper c) cs"

definition title_case :: "string \<Rightarrow> string" where
  \<comment> \<open>\<open>text.title()\<close>\<close>
  "title_case s = title_from False s"

subsection \<open>The patterns of \<open>re.match\<close>\<close>

text \<open>
  Every pattern of the source that is given to \<open>re.match\<close> is a sequence of character
  classes, each taken once, optionally (\<open>?\<close>) or one or more times (\<open>+\<close>). \<open>re_match\<close>
  says whether some prefix of the text matches, trying every split as the backtracking
  matcher does.
\<close>

datatype item = One "char \<Rightarrow> bool" | Optional "char \<Rightarrow> bool" | Many1 "char \<Rightarrow> bool"

fun re_match :: "item list \<Rightarrow> string \<Rightarrow> bool" where
  "re_match [] s = True"
| "re_match (One P # r) [] = False"
| "re_match (One P # r) (c # cs) = (P c \<and> re_match r cs)"
| "re_match (Optional P # r) [] = re_match r []"
| "re_match (Optional P # r) (c # cs) = ((P c \<and> re_match r cs) \<or> re_match r (c # cs))"
| "re_match (Many1 P # r) [] = False"
| "re_match (Many1 P # r) (c # cs) = (P c \<and> (re_match (Many1 P # r) cs \<or> re_match r cs))"

definition chr_is :: "char \<Rightarrow> char \<Rightarrow> bool" where
  "chr_is a c = (c = a)"

definition is_IVX :: "char \<Rightarrow> bool" where
  "is_IVX c = (c \<in> set ''IVX'')"

definition pat_n :: "item list" where
  \<comment> \<open>\<^verbatim>\<open>^\d+\.?\s+\<close>\<close>
  "pat_n = [Many1 is_digit, Optional (chr_is CHR ''.''), Many1 is_space]"

definition pat_n_n :: "item list" where
  \<comment> \<open>\<^verbatim>\<open>^\d+\.\d+\.?\s+\<close>\<close>
  "pat_n_n = [Many1 is_digit, One (chr_is CHR ''.''), Many1 is_digit,
              Optional (chr_is CHR ''.''), Many1 is_space]"

definition pat_n_n_n :: "item list" where
  \<comment> \<open>\<^verbatim>\<open>^\d+\.\d+\.\d+\.?\s+\<close>\<close>
  "pat_n_n_n = [Many1 is_digit, One (chr_is CHR ''.''), Many1 is_digit, One (chr_is CHR ''.''),
                Many1 is_digit, Optional (chr_is CHR ''.''), Many1 is_space]"

definition heading_patterns :: "item list list" where
  "heading_patterns =
    [pat_n, pat_n_n, pat_n_n_n,
     [Many1 is_upper, Optional (chr_is CHR ''.''), Many1 is_space],
     [Many1 is_IVX, Optional (chr_is CHR ''.''), Many1 is_space],
     [One is_lower, Optional (chr_is CHR '')''), Many1 is_space],
     [One (chr_is CHR ''(''), One is_lower, One (chr_is CHR '')''), Many1 is_space],
     [One (chr_is CHR ''(''), One is_digit, One (chr_is CHR '')''), Many1 is_space]]"

definition cjk_patterns :: "item list list" where
  \<comment> \<open>each of the five CJK patterns starts with a character outside ASCII: on an ASCII
      text the first class of each is the empty one\<close>
  "cjk_patterns = replicate 5 [One (\<lambda>c. False)]"

definition title_keywords_latin :: "string list" where
  "title_keywords_latin = [''title'', ''chapter'', ''part'', ''section'', ''introduction'',
     ''abstract'', ''summary'', ''overview'', ''contents'', ''index'']"

definition exclude_keywords :: "string list" where
  "exclude_keywords = [''page'', ''figure'', ''table'', ''appendix'', ''reference'',
     ''bibliography'', ''footnote'', ''header'', ''footer'', ''copyright'', ''rights'',
     ''reserved'']"

definition title_keywords :: "string \<Rightarrow> string list" where
  \<comment> \<open>\<open>self.title_keywords.get(language_type, self.title_keywords['latin'])\<close>: the dict
      has the keys 'latin' and 'cjk'; no keyword of the CJK list occurs in an ASCII text,
      so that list contributes no match\<close>
  "title_keywords language_type = (if language_type = ''cjk'' then [] else title_keywords_latin)"

subsection \<open>Elements and the font hierarchy\<close>

record element =
  el_text :: "string option"
  el_size :: "rat option"
  el_page :: "int option"
  el_y_pos :: "rat option"
  el_is_bold :: "bool option"
  el_is_left_aligned :: "bool option"
  el_is_centered :: "bool option"
  el_language_type :: "string option"
  el_starts_with_number :: "bool option"

datatype level = Title | H1 | H2 | H3

type_synonym hierarchy = "(level \<times> rat) list"

definition hget :: "hierarchy \<Rightarrow> level \<Rightarrow> rat \<Rightarrow> rat" where
  \<comment> \<open>\<open>self.font_hierarchy.get(k, d)\<close>\<close>
  "hget h k d = get_default (map_of h k) d"

subsection \<open>Confidence scoring\<close>

definition min_confidence :: rat where "min_confidence = 0.4"
definition title_confidence :: rat where "title_confidence = 0.6"

definition calculate_size_score :: "hierarchy option \<Rightarrow> rat \<Rightarrow> rat" where
  "calculate_size_score st font_size =
    (case st of
       None \<Rightarrow> (if font_size \<ge> 16 then 1.0 else if font_size \<ge> 14 then 0.8
                else if font_size \<ge> 12 then 0.6 else 0.3)
     | Some h \<Rightarrow>
        if h = [] then
          (if font_size \<ge> 16 then 1.0 else if font_size \<ge> 14 then 0.8
           else if font_size \<ge> 12 then 0.6 else 0.3)
        else if font_size \<ge> hget h Title 16 then 1.0
        else if font_size \<ge> hget h H1 14 then 0.8
        else if font_size \<ge> hget h H2 12 then 0.6
        else if font_size \<ge> hget h H3 10 then 0.4
        else 0.2)"

definition calculate_position_score :: "element \<Rightarrow> error + rat" where
  "calculate_position_score e =
    (let score = 0;
         score = (if get_default (el_is_left_aligned e) False then score + 0.4 else score);
         score = (if get_default (el_is_centered e) False then score + 0.3 else score)
     in err_bind (key_lookup ''y_pos'' (el_y_pos e)) (\<lambda>y.
          Inr (if y < 150 then score + 0.3 else score)))"

definition calculate_pattern_score :: "string \<Rightarrow> string \<Rightarrow> error + rat" where
  "calculate_pattern_score text language_type =
    (let text_clean = strip text in
     if list_ex (\<lambda>p. re_match p text_clean) heading_patterns then Inr 0.8
     else if language_type \<in> set [''japanese'', ''chinese'', ''cjk'']
             \<and> list_ex (\<lambda>p. re_match p text_clean) cjk_patterns then Inr 0.8
     else if list_ex (\<lambda>k. contains k (lower text_clean)) (title_keywords language_type)
          then Inr 0.6
     else if isupper text_clean \<and> length text_clean > 2 then Inr 0.4
     else (case text_clean of
             [] \<Rightarrow> Inl IndexError
           | c # _ \<Rightarrow>
               if is_upper c \<and> length (split text_clean) \<le> 8 \<and> \<not> endswith_dot text_clean
               then Inr 0.3 else Inr 0.0))"

definition calculate_length_score :: "string \<Rightarrow> rat" where
  "calculate_length_score text =
    (let char_count = length text; word_count = length (split text) in
     if 5 \<le> char_count \<and> char_count \<le> 50 \<and> 1 \<le> word_count \<and> word_count \<le> 8 then 1.0
     else if 3 \<le> char_count \<and> char_count \<le> 100 \<and> 1 \<le> word_count \<and> word_count \<le> 12
          then 0.7
     else if char_count \<le> 150 then 0.4
     else 0.1)"

definition calculate_special_score :: "element \<Rightarrow> error + rat" where
  "calculate_special_score e =
    err_bind (key_lookup ''text'' (el_text e)) (\<lambda>t.
      let text = lower t;
          score = 0;
          score = (if list_ex (\<lambda>k. contains k text) exclude_keywords then score - 0.5 else score);
          score = (if get_default (el_starts_with_number e) False then score + 0.3 else score)
      in err_bind (key_lookup ''page'' (el_page e)) (\<lambda>p.
           let score = (if p \<le> 3 then score + 0.2 else score);
               score = (if p > 20 then score - 0.1 else score)
           in Inr score))"

definition calculate_heading_confidence :: "hierarchy option \<Rightarrow> element \<Rightarrow> error + rat" where
  "calculate_heading_confidence st e =
    err_bind (key_lookup ''text'' (el_text e)) (\<lambda>text.
    err_bind (key_lookup ''size'' (el_size e)) (\<lambda>sz.
      let confidence = 0.0;
          confidence = confidence + calculate_size_score st sz * 0.3;
          confidence = (if get_default (el_is_bold e) False then confidence + 0.15
                        else confidence)
      in
    err_bind (calculate_position_score e) (\<lambda>position_score.
      let confidence = confidence + position_score * 0.2 in
    err_bind (calculate_pattern_score text (get_default (el_language_type e) ''latin''))
      (\<lambda>pattern_score.
      let confidence = confidence + pattern_score * 0.2;
          confidence = confidence + calculate_length_score text * 0.1
      in
    err_bind (calculate_special_score e) (\<lambda>special_score.
      let confidence = confidence + special_score * 0.05
      in Inr (min confidence 1.0))))))"

subsection \<open>Candidate selection\<close>

text \<open>
  A potential heading is the copy of an element with its confidence. The record holds the
  keys that the sort and the classification read; scoring has read all of them before, so
  none of the lookups can fail once a confidence exists.
\<close>

record candidate =
  c_text :: string
  c_size :: rat
  c_page :: int
  c_y_pos :: rat
  c_confidence :: rat

definition heading_info :: "element \<Rightarrow> rat \<Rightarrow> error + candidate" where
  "heading_info e confidence =
    err_bind (key_lookup ''page'' (el_page e)) (\<lambda>p.
    err_bind (key_lookup ''y_pos'' (el_y_pos e)) (\<lambda>y.
    err_bind (key_lookup ''text'' (el_text e)) (\<lambda>t.
    err_bind (key_lookup ''size'' (el_size e)) (\<lambda>z.
      Inr \<lparr>c_text = t, c_size = z, c_page = p, c_y_pos = y, c_confidence = confidence\<rparr>))))"

fun scan_elements :: "hierarchy option \<Rightarrow> element list \<Rightarrow> error + candidate list" where
  "scan_elements st [] = Inr []"
| "scan_elements st (e # es) =
    err_bind (calculate_heading_confidence st e) (\<lambda>confidence.
    err_bind (if confidence \<ge> min_confidence
              then err_bind (heading_info e confidence) (\<lambda>h. Inr [h])
              else Inr []) (\<lambda>hs.
    err_bind (scan_elements st es) (\<lambda>rest. Inr (hs @ rest))))"

definition find_potential_headings ::
  "hierarchy option \<Rightarrow> element list list \<Rightarrow> error + candidate list" where
  "find_potential_headings st pages_data =
    err_bind (scan_elements st (concat pages_data)) (\<lambda>potential_headings.
      Inr (sort_key (\<lambda>x. (c_page x, - c_confidence x, c_y_pos x)) potential_headings))"

subsection \<open>Level classification\<close>

record heading =
  h_level :: level
  h_text :: string
  h_page :: int

record classified_heading = heading +
  h_confidence :: rat
  h_font_size :: rat

definition classify_heading_level :: "hierarchy \<Rightarrow> candidate \<Rightarrow> bool \<Rightarrow> level option" where
  "classify_heading_level h heading title_found =
    (let confidence = c_confidence heading; font_size = c_size heading;
         page = c_page heading; text = c_text heading in
     if (\<not> title_found \<and> page \<le> 2 \<and> confidence \<ge> title_confidence
           \<and> font_size \<ge> hget h Title 16 - 1)
        \<and> (length (split text) \<le> 10
           \<and> \<not> list_ex (\<lambda>exclude. contains exclude (lower text)) exclude_keywords)
     then Some Title
     else if font_size \<ge> hget h H1 14 - 0.5 then Some H1
     else if font_size \<ge> hget h H2 12 - 0.5 then Some H2
     else if font_size \<ge> hget h H3 10 - 0.5 then Some H3
     else if re_match pat_n text then Some H1
     else if re_match pat_n_n text then Some H2
     else if re_match pat_n_n_n text then Some H3
     else None)"

fun classify_from :: "hierarchy \<Rightarrow> bool \<Rightarrow> candidate list \<Rightarrow> classified_heading list" where
  "classify_from h title_found [] = []"
| "classify_from h title_found (heading # rest) =
    (case classify_heading_level h heading title_found of
       None \<Rightarrow> classify_from h title_found rest
     | Some lv \<Rightarrow>
         \<lparr>h_level = lv, h_text = c_text heading, h_page = c_page heading,
          h_confidence = c_confidence heading, h_font_size = c_size heading\<rparr>
           # classify_from h (if lv = Title then True else title_found) rest)"

definition classify_headings :: "hierarchy \<Rightarrow> candidate list \<Rightarrow> classified_heading list" where
  \<comment> \<open>\<open>h\<close> is \<open>self.font_hierarchy\<close>, assigned by the analysis before the call\<close>
  "classify_headings h potential_headings = classify_from h False potential_headings"

subsection \<open>Post-processing of the outline\<close>

definition lead_class :: "char \<Rightarrow> bool" where
  \<comment> \<open>\<^verbatim>\<open>[\d\.\s\-\)\(]\<close>\<close>
  "lead_class c = (is_digit c \<or> is_space c \<or> c \<in> set ''.-)('')"

definition trail_class :: "char \<Rightarrow> bool" where
  \<comment> \<open>\<^verbatim>\<open>[^\w\s\.\!\?]\<close>\<close>
  "trail_class c = (\<not> is_word c \<and> \<not> is_space c \<and> c \<notin> set ''.!?'')"

definition sub_trailing :: "string \<Rightarrow> string" where
  \<comment> \<open>\<^verbatim>\<open>re.sub(r'[^\w\s\.\!\?]+$', '', text)\<close>: \<open>$\<close> matches at the end of the text and
      before a newline that ends the text\<close>
  "sub_trailing s =
    (case rev s of
       [] \<Rightarrow> []
     | c # r \<Rightarrow> if c = CHR 0x0A then rev (dropWhile trail_class r) @ [c]
                else rev (dropWhile trail_class (c # r)))"

fun collapse_from :: "bool \<Rightarrow> string \<Rightarrow> string" where
  "collapse_from in_run [] = []"
| "collapse_from in_run (c # cs) =
    (if is_space c then (if in_run then collapse_from True cs
                         else CHR '' '' # collapse_from True cs)
     else c # collapse_from False cs)"

definition collapse_whitespace :: "string \<Rightarrow> string" where
  \<comment> \<open>\<^verbatim>\<open>re.sub(r'\s+', ' ', text)\<close>\<close>
  "collapse_whitespace s = collapse_from False s"

definition clean_heading_text :: "string \<Rightarrow> string" where
  "clean_heading_text text0 =
    (let text = dropWhile lead_class text0;
         text = sub_trailing text;
         text = strip (collapse_whitespace text)
     in if islower text \<or> isupper text then title_case text else text)"

definition get_level_priority :: "level \<Rightarrow> int" where
  "get_level_priority lv = (case lv of H1 \<Rightarrow> 1 | H2 \<Rightarrow> 2 | H3 \<Rightarrow> 3 | Title \<Rightarrow> 4)"

fun clean_from :: "string set \<Rightarrow> 'a heading_scheme list \<Rightarrow> heading list" where
  "clean_from seen_texts [] = []"
| "clean_from seen_texts (heading # rest) =
    (let text_clean = clean_heading_text (h_text heading) in
     if lower text_clean \<notin> seen_texts \<and> length text_clean > 2
     then \<lparr>h_level = h_level heading, h_text = text_clean, h_page = h_page heading\<rparr>
            # clean_from (insert (lower text_clean) seen_texts) rest
     else clean_from seen_texts rest)"

definition post_process_outline :: "'a heading_scheme list \<Rightarrow> heading list" where
  \<comment> \<open>reads the keys level, text and page only, so it applies to classified headings
      and to outline entries alike\<close>
  "post_process_outline classified_headings =
    (if classified_headings = [] then []
     else let outline_headings = filter (\<lambda>h. h_level h \<noteq> Title) classified_headings;
              clean_outline = clean_from {} outline_headings
          in sort_key (\<lambda>x. (h_page x, get_level_priority (h_level x))) clean_outline)"

subsection \<open>Font analysis\<close>

record cluster =
  cl_size :: rat
  cl_count :: nat
  cl_rank :: nat
  cl_frequency_score :: rat
  cl_size_score :: rat
  cl_importance :: rat

record font_analysis =
  fa_sizes :: "rat list"
  fa_clusters :: "cluster list"
  fa_hierarchy :: hierarchy

definition font_size_threshold :: rat where "font_size_threshold = 8.0"

definition fallback_hierarchy :: hierarchy where
  "fallback_hierarchy = [(Title, 16), (H1, 14), (H2, 12), (H3, 10)]"

fun collect_sized :: "element list \<Rightarrow> error + (rat \<times> element) list" where
  \<comment> \<open>the elements of size at or above the threshold, each with its size, in stream order\<close>
  "collect_sized [] = Inr []"
| "collect_sized (e # es) =
    err_bind (key_lookup ''size'' (el_size e)) (\<lambda>sz.
    err_bind (collect_sized es) (\<lambda>rest.
      Inr (if sz \<ge> font_size_threshold then (sz, e) # rest else rest)))"

definition create_font_clusters :: "rat list \<Rightarrow> rat list \<Rightarrow> cluster list" where
  \<comment> \<open>the Counter is given as the list \<open>font_sizes\<close> of the counted sizes: \<open>counts[size]\<close>
      is the number of occurrences and \<open>sum(counts.values())\<close> the length\<close>
  "create_font_clusters sizes font_sizes =
    (if sizes = [] then []
     else map (\<lambda>(i, sz).
            let cnt = count_list font_sizes sz;
                frequency_score = of_nat cnt / of_nat (length font_sizes);
                size_score = sz / Max (set sizes)
            in \<lparr>cl_size = sz, cl_count = cnt, cl_rank = i + 1,
                cl_frequency_score = frequency_score, cl_size_score = size_score,
                cl_importance = size_score * 0.7 + frequency_score * 0.3\<rparr>)
          (enumerate 0 sizes))"

fun early_page_elements :: "element list \<Rightarrow> error + element list" where
  \<comment> \<open>\<open>[e for e in elements if e['page'] <= 2]\<close>\<close>
  "early_page_elements [] = Inr []"
| "early_page_elements (e # es) =
    err_bind (key_lookup ''page'' (el_page e)) (\<lambda>p.
    err_bind (early_page_elements es) (\<lambda>rest. Inr (if p \<le> 2 then e # rest else rest)))"

fun title_candidates :: "cluster list \<Rightarrow> (rat \<Rightarrow> element list) \<Rightarrow> error + (rat \<times> nat) list" where
  "title_candidates [] size_to_elements = Inr []"
| "title_candidates (c # cs) size_to_elements =
    err_bind (early_page_elements (size_to_elements (cl_size c))) (\<lambda>early.
    err_bind (title_candidates cs size_to_elements) (\<lambda>rest.
      Inr (if early \<noteq> [] then (cl_size c, length early) # rest else rest)))"

fun max_from :: "('a \<Rightarrow> 'k::linorder) \<Rightarrow> 'a \<Rightarrow> 'a list \<Rightarrow> 'a" where
  \<comment> \<open>\<open>max(xs, key=f)\<close> after its first item: a later item replaces the best one only
      when its key is strictly greater\<close>
  "max_from f best [] = best"
| "max_from f best (x # xs) = max_from f (if f x > f best then x else best) xs"

definition remaining_levels :: "rat \<Rightarrow> rat list \<Rightarrow> hierarchy" where
  "remaining_levels title_size remaining_sizes =
    (case remaining_sizes of
       a # b # c # _ \<Rightarrow> [(H1, a), (H2, b), (H3, c)]
     | [a, b] \<Rightarrow> [(H1, a), (H2, b), (H3, b - 1)]
     | [a] \<Rightarrow> [(H1, a), (H2, a - 1), (H3, a - 2)]
     | [] \<Rightarrow> (let base_size = title_size - 2
              in [(H1, base_size), (H2, base_size - 1), (H3, base_size - 2)]))"

definition sorted_clusters :: "cluster list \<Rightarrow> cluster list" where
  \<comment> \<open>\<open>sorted(clusters, key=lambda x: x['importance'], reverse=True)\<close>, a stable sort\<close>
  "sorted_clusters clusters = sort_key (\<lambda>c. - cl_importance c) clusters"

definition create_font_hierarchy ::
  "cluster list \<Rightarrow> (rat \<Rightarrow> element list) \<Rightarrow> error + hierarchy" where
  "create_font_hierarchy clusters size_to_elements =
    (case sorted_clusters clusters of
       [] \<Rightarrow> Inr fallback_hierarchy
     | first # others \<Rightarrow>
         err_bind (title_candidates (take 3 (first # others)) size_to_elements) (\<lambda>cands.
           let title_size = (case cands of
                               [] \<Rightarrow> cl_size first
                             | cand # later \<Rightarrow> fst (max_from snd cand later));
               remaining_sizes = filter (\<lambda>sz. sz \<noteq> title_size) (map cl_size (first # others))
           in Inr ((Title, title_size) # remaining_levels title_size remaining_sizes)))"

definition analyze_font_distribution :: "element list list \<Rightarrow> error + font_analysis" where
  \<comment> \<open>of the returned dict the keys sizes, clusters and hierarchy are kept\<close>
  "analyze_font_distribution pages_data =
    err_bind (collect_sized (concat pages_data)) (\<lambda>sized.
      let font_sizes = map fst sized;
          size_to_elements = (\<lambda>sz. map snd (filter (\<lambda>p. fst p = sz) sized))
      in if font_sizes = [] then Inr \<lparr>fa_sizes = [], fa_clusters = [], fa_hierarchy = []\<rparr>
         else let unique_sizes = rev (sort (remdups font_sizes));
                  clusters = create_font_clusters unique_sizes font_sizes
              in err_bind (create_font_hierarchy clusters size_to_elements) (\<lambda>hierarchy.
                   Inr \<lparr>fa_sizes = unique_sizes, fa_clusters = clusters,
                        fa_hierarchy = hierarchy\<rparr>))"

subsection \<open>The two entry points of the detector\<close>

definition analyze_document_structure ::
  "hierarchy option \<Rightarrow> element list list \<Rightarrow> (error + heading list) \<times> hierarchy option" where
  \<comment> \<open>the result (or the exception) and the state the call leaves\<close>
  "analyze_document_structure st pages_data =
    (if pages_data = [] then (Inr [], st)
     else case analyze_font_distribution pages_data of
            Inl err \<Rightarrow> (Inl err, st)
          | Inr font_analysis \<Rightarrow>
              let st' = Some (fa_hierarchy font_analysis) in
              (err_bind (find_potential_headings st' pages_data) (\<lambda>potential_headings.
                 Inr (post_process_outline
                        (classify_headings (fa_hierarchy font_analysis) potential_headings))),
               st'))"

record title_candidate =
  t_text :: string
  t_confidence :: rat
  t_size :: rat
  t_page :: int

fun scan_titles :: "hierarchy option \<Rightarrow> element list \<Rightarrow> error + title_candidate list" where
  "scan_titles st [] = Inr []"
| "scan_titles st (e # es) =
    err_bind (calculate_heading_confidence st e) (\<lambda>confidence.
    err_bind
      (if confidence \<ge> title_confidence then
         err_bind (key_lookup ''size'' (el_size e)) (\<lambda>sz.
           case st of
             None \<Rightarrow> Inl (AttributeError ''font_hierarchy'')
           | Some h \<Rightarrow>
               if sz \<ge> hget h Title 16 - 2 then
                 err_bind (key_lookup ''text'' (el_text e)) (\<lambda>t.
                 err_bind (key_lookup ''page'' (el_page e)) (\<lambda>p.
                   Inr [\<lparr>t_text = t, t_confidence = confidence, t_size = sz, t_page = p\<rparr>]))
               else Inr [])
       else Inr []) (\<lambda>cs.
    err_bind (scan_titles st es) (\<lambda>rest. Inr (cs @ rest))))"

fun sizes_of :: "element list \<Rightarrow> error + (rat \<times> element) list" where
  \<comment> \<open>the keys \<open>x['size']\<close> that \<open>max\<close> computes, item by item\<close>
  "sizes_of [] = Inr []"
| "sizes_of (e # es) =
    err_bind (key_lookup ''size'' (el_size e)) (\<lambda>sz.
    err_bind (sizes_of es) (\<lambda>rest. Inr ((sz, e) # rest)))"

definition untitled :: string where
  "untitled = ''Untitled Document''"

definition find_document_title :: "hierarchy option \<Rightarrow> element list list \<Rightarrow> error + string" where
  "find_document_title st pages_data =
    (case pages_data of
       [] \<Rightarrow> Inr untitled
     | first_page # _ \<Rightarrow>
         err_bind (scan_titles st (concat (take 2 pages_data))) (\<lambda>cands.
           case sort_key (\<lambda>x. (- t_confidence x, - t_size x)) cands of
             best # _ \<Rightarrow> Inr (clean_heading_text (t_text best))
           | [] \<Rightarrow>
               (case first_page of
                  [] \<Rightarrow> Inr untitled
                | _ # _ \<Rightarrow>
                    err_bind (sizes_of first_page) (\<lambda>keyed.
                      case keyed of
                        [] \<Rightarrow> Inr untitled
                      | k # ks \<Rightarrow>
                          err_bind (key_lookup ''text'' (el_text (snd (max_from fst k ks))))
                            (\<lambda>t. Inr (clean_heading_text t))))))"

subsection \<open>Concrete inputs\<close>

definition late_noise :: element where
  \<comment> \<open>a small element on page 21 whose text holds a noise keyword\<close>
  "late_noise = \<lparr>el_text = Some ''page'', el_size = Some 9, el_page = Some 21,
     el_y_pos = Some 700, el_is_bold = None, el_is_left_aligned = None, el_is_centered = None,
     el_language_type = None, el_starts_with_number = None\<rparr>"

definition sample_headings :: "classified_heading list" where
  \<comment> \<open>a title, a repeated text in another case, pages out of order\<close>
  "sample_headings =
    [\<lparr>h_level = H2, h_text = ''Background'', h_page = 2, h_confidence = 0.5, h_font_size = 12\<rparr>,
     \<lparr>h_level = Title, h_text = ''Annual Report'', h_page = 1, h_confidence = 0.9,
      h_font_size = 24\<rparr>,
     \<lparr>h_level = H1, h_text = ''1. Introduction'', h_page = 1, h_confidence = 0.7,
      h_font_size = 14\<rparr>,
     \<lparr>h_level = H3, h_text = ''2.1 BACKGROUND'', h_page = 5, h_confidence = 0.6,
      h_font_size = 10\<rparr>]"

definition year_element :: element where
  \<comment> \<open>a large bold "2025" at the top left of page 1\<close>
  "year_element = \<lparr>el_text = Some ''2025'', el_size = Some 24, el_page = Some 1,
     el_y_pos = Some 100, el_is_bold = Some True, el_is_left_aligned = Some True,
     el_is_centered = Some False, el_language_type = Some ''latin'',
     el_starts_with_number = Some False\<rparr>"

definition tiny :: element where
  \<comment> \<open>an element below the size threshold\<close>
  "tiny = \<lparr>el_text = Some ''note'', el_size = Some 6, el_page = Some 1,
     el_y_pos = Some 100, el_is_bold = None, el_is_left_aligned = None,
     el_is_centered = None, el_language_type = None, el_starts_with_number = None\<rparr>"

definition nested_paren :: "heading list" where
  \<comment> \<open>a heading whose text ends in two separate opening parentheses\<close>
  "nested_paren = [\<lparr>h_level = H1, h_text = ''Intro ( ('', h_page = 1\<rparr>]"

definition mixed_headings :: "classified_heading list" where
  \<comment> \<open>three levels out of order on page 1, a title, and on page 2 a text that repeats
      one of page 1 in another case\<close>
  "mixed_headings =
    [\<lparr>h_level = H3, h_text = ''Scope'', h_page = 1, h_confidence = 0.5, h_font_size = 10\<rparr>,
     \<lparr>h_level = H2, h_text = ''Related Work'', h_page = 1, h_confidence = 0.5, h_font_size = 12\<rparr>,
     \<lparr>h_level = Title, h_text = ''Annual Report'', h_page = 1, h_confidence = 0.9,
      h_font_size = 24\<rparr>,
     \<lparr>h_level = H1, h_text = ''1. Introduction'', h_page = 1, h_confidence = 0.7,
      h_font_size = 14\<rparr>,
     \<lparr>h_level = H1, h_text = ''Related work'', h_page = 2, h_confidence = 0.6,
      h_font_size = 14\<rparr>,
     \<lparr>h_level = H2, h_text = ''details'', h_page = 2, h_confidence = 0.6,
      h_font_size = 12\<rparr>,
     \<lparr>h_level = H1, h_text = ''Results'', h_page = 2, h_confidence = 0.6,
      h_font_size = 14\<rparr>]"








definition overview_notes :: element where
  \<comment> \<open>a plain line of size 20 in the middle of page 1\<close>
  "overview_notes = \<lparr>el_text = Some ''Overview Notes'', el_size = Some 20, el_page = Some 1,
     el_y_pos = Some 400, el_is_bold = Some False, el_is_left_aligned = Some False,
     el_is_centered = Some False, el_language_type = Some ''latin'',
     el_starts_with_number = Some False\<rparr>"

definition introduction :: element where
  \<comment> \<open>a bold numbered line of size 14 at the top left of page 1\<close>
  "introduction = \<lparr>el_text = Some ''1. Introduction'', el_size = Some 14, el_page = Some 1,
     el_y_pos = Some 100, el_is_bold = Some True, el_is_left_aligned = Some True,
     el_is_centered = Some False, el_language_type = Some ''latin'',
     el_starts_with_number = Some True\<rparr>"

definition report :: "element list list" where
  "report = [[overview_notes, introduction]]"

definition small_print :: "element list list" where
  \<comment> \<open>a document whose only size is 14\<close>
  "small_print = [[introduction]]"

definition poster :: "element list list" where
  \<comment> \<open>a document whose only size is 30\<close>
  "poster = [[overview_notes\<lparr>el_size := Some 30\<rparr>]]"

subsection \<open>Title candidates in the words of the specification\<close>







section \<open>Properties\<close>

subsection \<open>Results of the error monad\<close>

lemma err_bind_Inr_iff: "err_bind m f = Inr y \<longleftrightarrow> (\<exists>x. m = Inr x \<and> f x = Inr y)"
  by (cases m) (simp_all add: err_bind_def)

lemma key_lookup_Inr_iff: "key_lookup k v = Inr x \<longleftrightarrow> v = Some x"
  by (cases v) (simp_all add: key_lookup_def)

subsection \<open>Range of the confidence\<close>

lemma size_score_bounds: "0.2 \<le> calculate_size_score st z \<and> calculate_size_score st z \<le> 1"
  by (simp add: calculate_size_score_def split: option.split)

lemma position_score_bounds:
  "calculate_position_score e = Inr p \<Longrightarrow> 0 \<le> p \<and> p \<le> 1"
  by (auto simp: calculate_position_score_def err_bind_Inr_iff key_lookup_Inr_iff Let_def
           split: if_splits)

lemma pattern_score_bounds:
  "calculate_pattern_score t l = Inr p \<Longrightarrow> 0 \<le> p \<and> p \<le> 0.8"
  by (auto simp: calculate_pattern_score_def Let_def split: if_splits list.splits)

lemma length_score_bounds: "0.1 \<le> calculate_length_score t \<and> calculate_length_score t \<le> 1"
  by (simp add: calculate_length_score_def Let_def)

lemma special_score_bounds:
  "calculate_special_score e = Inr s \<Longrightarrow> - 0.6 \<le> s \<and> s \<le> 0.5"
  by (auto simp: calculate_special_score_def err_bind_Inr_iff key_lookup_Inr_iff Let_def
           split: if_splits)

lemma confidence_Inr_iff:
  "calculate_heading_confidence st e = Inr s \<longleftrightarrow>
     (\<exists>t z p q r. el_text e = Some t \<and> el_size e = Some z
        \<and> calculate_position_score e = Inr p
        \<and> calculate_pattern_score t (get_default (el_language_type e) ''latin'') = Inr q
        \<and> calculate_special_score e = Inr r
        \<and> s = min (calculate_size_score st z * 0.3
                     + (if get_default (el_is_bold e) False then 0.15 else 0)
                     + p * 0.2 + q * 0.2 + calculate_length_score t * 0.1 + r * 0.05) 1)"
  unfolding calculate_heading_confidence_def err_bind_Inr_iff key_lookup_Inr_iff Let_def
  by (cases "get_default (el_is_bold e) False") auto

lemma confidence_bounds:
  assumes "calculate_heading_confidence st e = Inr s"
  shows "0 \<le> s \<and> s \<le> 1"
proof -
  from assms obtain t z p q r where
        p: "calculate_position_score e = Inr p"
    and q: "calculate_pattern_score t (get_default (el_language_type e) ''latin'') = Inr q"
    and r: "calculate_special_score e = Inr r"
    and s: "s = min (calculate_size_score st z * 0.3
                     + (if get_default (el_is_bold e) False then 0.15 else 0)
                     + p * 0.2 + q * 0.2 + calculate_length_score t * 0.1 + r * 0.05) 1"
    unfolding confidence_Inr_iff by blast
  note b = size_score_bounds[of st z] position_score_bounds[OF p] pattern_score_bounds[OF q]
    length_score_bounds[of t] special_score_bounds[OF r]
  show ?thesis using b unfolding s by (auto simp: min_def)
qed

lemma position_score_total:
  "el_y_pos e = Some y \<Longrightarrow> \<exists>p. calculate_position_score e = Inr p"
  by (simp add: calculate_position_score_def err_bind_def key_lookup_def Let_def)

lemma pattern_score_total:
  assumes "strip t \<noteq> []"
  shows "\<exists>q. calculate_pattern_score t l = Inr q"
proof -
  obtain c cs where "strip t = c # cs"
    using assms by (cases "strip t") auto
  then have "\<not> isl (calculate_pattern_score t l)"
    by (simp add: calculate_pattern_score_def Let_def)
  then show ?thesis
    by (cases "calculate_pattern_score t l") auto
qed

lemma special_score_total:
  "el_text e = Some t \<Longrightarrow> el_page e = Some p \<Longrightarrow> \<exists>r. calculate_special_score e = Inr r"
  by (simp add: calculate_special_score_def err_bind_def key_lookup_def Let_def)

lemma confidence_total:
  assumes "el_text e = Some t" "el_size e = Some z" "el_page e = Some p"
    "el_y_pos e = Some y" "strip t \<noteq> []"
  shows "\<exists>s. calculate_heading_confidence st e = Inr s"
proof -
  obtain a where a: "calculate_position_score e = Inr a"
    using position_score_total assms(4) by blast
  obtain b where b: "calculate_pattern_score t (get_default (el_language_type e) ''latin'') = Inr b"
    using pattern_score_total assms(5) by blast
  obtain c where c: "calculate_special_score e = Inr c"
    using special_score_total assms(1,3) by blast
  show ?thesis unfolding confidence_Inr_iff using assms(1,2) a b c by simp
qed

text \<open>
  Claim C1. Whatever the element and whatever the state of the hierarchy (absent, empty
  or any dict), a confidence that scoring returns lies in the closed interval from 0 to 1;
  and scoring does return one for every element whose keys text, size, y_pos and page
  are present and whose text is not blank. The lower bound needs no clamp: the size term
  is at least 0.06 and the length term at least 0.01, while the special term, with the
  noise-keyword and the late-page penalty together, is no less than -0.03.
\<close>

theorem confidence_in_unit_interval:
  "(calculate_heading_confidence st e = Inr s \<longrightarrow> 0 \<le> s \<and> s \<le> 1) \<and>
   (el_text e = Some t \<and> el_size e = Some z \<and> el_page e = Some p \<and> el_y_pos e = Some y
      \<and> strip t \<noteq> []
    \<longrightarrow> (\<exists>c. calculate_heading_confidence st e = Inr c \<and> 0 \<le> c \<and> c \<le> 1))"
  using confidence_bounds confidence_total by metis

theorem confidence_in_unit_interval_witness:
  "calculate_heading_confidence None late_noise = Inr (13 / 100) \<and>
   (\<exists>c. calculate_heading_confidence None late_noise = Inr c \<and> 0 \<le> c \<and> c \<le> 1)"
proof -
  have ev: "calculate_heading_confidence None late_noise = Inr (13 / 100)"
    by code_simp
  have hyp: "el_text late_noise = Some ''page'' \<and> el_size late_noise = Some 9
      \<and> el_page late_noise = Some 21 \<and> el_y_pos late_noise = Some 700 \<and> strip ''page'' \<noteq> []"
    by code_simp
  show ?thesis
    using confidence_in_unit_interval [of None late_noise "13 / 100" "''page''" 9 21 700] ev hyp
    by blast
qed

subsection \<open>The outline after post-processing\<close>

lemma clean_from_level:
  "e \<in> set (clean_from seen hs) \<Longrightarrow> h_level e \<in> h_level ` set hs"
  by (induction hs arbitrary: seen) (auto simp: Let_def split: if_splits)

lemma clean_from_unseen:
  "e \<in> set (clean_from seen hs) \<Longrightarrow> lower (h_text e) \<notin> seen"
  by (induction hs arbitrary: seen) (auto simp: Let_def split: if_splits)

lemma clean_from_distinct:
  "distinct (map (\<lambda>e. lower (h_text e)) (clean_from seen hs))"
proof (induction hs arbitrary: seen)
  case Nil
  then show ?case by simp
next
  case (Cons x hs)
  define t where "t = clean_heading_text (h_text x)"
  have fresh: "lower t \<notin> (\<lambda>e. lower (h_text e)) ` set (clean_from (insert (lower t) seen) hs)"
  proof
    assume "lower t \<in> (\<lambda>e. lower (h_text e)) ` set (clean_from (insert (lower t) seen) hs)"
    then obtain e where e: "e \<in> set (clean_from (insert (lower t) seen) hs)"
      and eq: "lower t = lower (h_text e)" by (rule imageE)
    from clean_from_unseen[OF e] have "lower (h_text e) \<notin> insert (lower t) seen" .
    with eq show False by simp
  qed
  show ?case
    using Cons.IH[of seen] Cons.IH[of "insert (lower t) seen"] fresh
    by (simp add: Let_def t_def)
qed

lemma distinct_map_insort_key:
  "distinct (map g (insort_key f x ys)) \<longleftrightarrow> g x \<notin> g ` set ys \<and> distinct (map g ys)"
  by (induction ys) (auto simp: set_insort_key)

lemma distinct_map_sort_key:
  "distinct (map g (sort_key f xs)) \<longleftrightarrow> distinct (map g xs)"
  by (induction xs) (auto simp: distinct_map_insort_key)

lemma priority_le_iff:
  "a \<noteq> Title \<Longrightarrow> b \<noteq> Title \<Longrightarrow>
   get_level_priority a \<le> get_level_priority b
     \<longleftrightarrow> a = H1 \<or> b = H3 \<or> (a = H2 \<and> b = H2)"
  by (cases a; cases b) (simp_all add: get_level_priority_def)

lemma post_process_levels:
  "e \<in> set (post_process_outline hs) \<Longrightarrow> h_level e \<noteq> Title"
proof -
  assume "e \<in> set (post_process_outline hs)"
  then have m: "e \<in> set (clean_from {} (filter (\<lambda>h. h_level h \<noteq> Title) hs))"
    by (auto simp: post_process_outline_def Let_def split: if_splits)
  from clean_from_level[OF m] show "h_level e \<noteq> Title" by auto
qed

lemma post_process_sorted:
  "sorted (map (\<lambda>e. (h_page e, get_level_priority (h_level e))) (post_process_outline hs))"
  by (simp add: post_process_outline_def Let_def)

text \<open>
  Claim C2. For every list of classified headings the outline that post-processing
  returns has only entries of level H1, H2 or H3, has no two entries whose texts are equal
  up to case, and is ordered: of two entries the earlier one is on an earlier page, or on
  the same page with a level that does not come after the level of the later one in the
  order H1, H2, H3.
\<close>

theorem outline_well_formed:
  "(\<forall>e \<in> set (post_process_outline hs). h_level e \<in> {H1, H2, H3})
   \<and> distinct (map (\<lambda>e. lower (h_text e)) (post_process_outline hs))
   \<and> sorted_wrt (\<lambda>a b. h_page a < h_page b
          \<or> (h_page a = h_page b
              \<and> (h_level a = H1 \<or> h_level b = H3 \<or> (h_level a = H2 \<and> h_level b = H2))))
        (post_process_outline hs)"
proof (intro conjI ballI)
  fix e assume "e \<in> set (post_process_outline hs)"
  then have "h_level e \<noteq> Title" by (rule post_process_levels)
  then show "h_level e \<in> {H1, H2, H3}" by (cases "h_level e") auto
next
  show "distinct (map (\<lambda>e. lower (h_text e)) (post_process_outline hs))"
    by (simp add: post_process_outline_def Let_def distinct_map_sort_key clean_from_distinct)
next
  have "sorted_wrt (\<lambda>a b. (h_page a, get_level_priority (h_level a))
                          \<le> (h_page b, get_level_priority (h_level b)))
          (post_process_outline hs)"
    using post_process_sorted[of hs] by (simp only: sorted_map)
  then show "sorted_wrt (\<lambda>a b. h_page a < h_page b
          \<or> (h_page a = h_page b
              \<and> (h_level a = H1 \<or> h_level b = H3 \<or> (h_level a = H2 \<and> h_level b = H2))))
        (post_process_outline hs)"
  proof (rule sorted_wrt_mono_rel[rotated])
    fix a b
    assume a: "a \<in> set (post_process_outline hs)" and b: "b \<in> set (post_process_outline hs)"
      and le: "(h_page a, get_level_priority (h_level a))
                 \<le> (h_page b, get_level_priority (h_level b))"
    have "get_level_priority (h_level a) \<le> get_level_priority (h_level b)
       \<longleftrightarrow> h_level a = H1 \<or> h_level b = H3 \<or> (h_level a = H2 \<and> h_level b = H2)"
      using post_process_levels[OF a] post_process_levels[OF b] by (rule priority_le_iff)
    with le show "h_page a < h_page b
          \<or> (h_page a = h_page b
              \<and> (h_level a = H1 \<or> h_level b = H3 \<or> (h_level a = H2 \<and> h_level b = H2)))"
      by (auto simp: less_eq_prod_def)
  qed
qed

theorem outline_well_formed_witness:
  "post_process_outline mixed_headings =
     [\<lparr>h_level = H1, h_text = ''Introduction'', h_page = 1\<rparr>,
      \<lparr>h_level = H2, h_text = ''Related Work'', h_page = 1\<rparr>,
      \<lparr>h_level = H3, h_text = ''Scope'', h_page = 1\<rparr>,
      \<lparr>h_level = H1, h_text = ''Results'', h_page = 2\<rparr>,
      \<lparr>h_level = H2, h_text = ''Details'', h_page = 2\<rparr>]
   \<and> clean_heading_text ''Related work'' = ''Related work''
   \<and> ''Related work'' \<noteq> ''Related Work''
   \<and> h_level \<lparr>h_level = H3, h_text = ''Scope'', h_page = 1\<rparr> \<in> {H1, H2, H3}
   \<and> distinct (map (\<lambda>e. lower (h_text e)) (post_process_outline mixed_headings))
   \<and> sorted_wrt (\<lambda>a b. h_page a < h_page b
          \<or> (h_page a = h_page b
              \<and> (h_level a = H1 \<or> h_level b = H3 \<or> (h_level a = H2 \<and> h_level b = H2))))
        (post_process_outline mixed_headings)"
proof -
  have ev: "post_process_outline mixed_headings =
     [\<lparr>h_level = H1, h_text = ''Introduction'', h_page = 1\<rparr>,
      \<lparr>h_level = H2, h_text = ''Related Work'', h_page = 1\<rparr>,
      \<lparr>h_level = H3, h_text = ''Scope'', h_page = 1\<rparr>,
      \<lparr>h_level = H1, h_text = ''Results'', h_page = 2\<rparr>,
      \<lparr>h_level = H2, h_text = ''Details'', h_page = 2\<rparr>]"
    by code_simp
  have cl: "clean_heading_text ''Related work'' = ''Related work''
      \<and> ''Related work'' \<noteq> ''Related Work''"
    by code_simp
  have mem: "\<lparr>h_level = H3, h_text = ''Scope'', h_page = 1\<rparr>
      \<in> set (post_process_outline mixed_headings)"
    unfolding ev by simp
  from outline_well_formed [of mixed_headings] mem ev cl show ?thesis
    by blast
qed

subsection \<open>Titles in the classification pass\<close>

lemma classify_level_title_found:
  "classify_heading_level h c True \<noteq> Some Title"
  by (simp add: classify_heading_level_def Let_def)

lemma classify_from_titles:
  "length (filter (\<lambda>x. h_level x = Title) (classify_from h tf cs)) \<le> (if tf then 0 else 1)"
proof (induction cs arbitrary: tf)
  case Nil
  then show ?case by simp
next
  case (Cons c cs)
  show ?case
  proof (cases "classify_heading_level h c tf")
    case None
    then show ?thesis using Cons.IH[of tf] by simp
  next
    case (Some lv)
    show ?thesis
    proof (cases "lv = Title")
      case True
      then have "\<not> tf" using Some classify_level_title_found by (cases tf) auto
      then show ?thesis using Some True Cons.IH[of True] by simp
    next
      case False
      then show ?thesis using Some Cons.IH[of tf] by simp
    qed
  qed
qed

text \<open>
  Claim C3. Whatever the hierarchy and the list of candidates, the classification pass
  gives the level title to at most one of them; and with the flag title_found set, no
  candidate is classified as title.
\<close>

theorem at_most_one_title:
  "length (filter (\<lambda>x. h_level x = Title) (classify_headings h cs)) \<le> 1
   \<and> classify_heading_level h c True \<noteq> Some Title"
  using classify_from_titles[of h False cs] classify_level_title_found
  by (simp add: classify_headings_def)

subsection \<open>A title that cleans to the empty text\<close>

text \<open>
  Claim C10. The title resolver can return the empty text. For the document whose only
  element is a large bold "2025" on page 1, analysed first so that the hierarchy is the
  one of this document, the element is the winning title candidate (confidence 0.67,
  size 24), cleaning strips all of its characters, and the empty text is returned; the
  placeholder is not put in its place.
\<close>

theorem title_can_be_empty:
  "calculate_heading_confidence (snd (analyze_document_structure None [[year_element]]))
     year_element = Inr (67 / 100)
   \<and> find_document_title (snd (analyze_document_structure None [[year_element]]))
       [[year_element]] = Inr ''''
   \<and> '''' \<noteq> untitled"
  by code_simp

subsection \<open>The hierarchy when no size qualifies\<close>

lemma collect_sized_small:
  "\<forall>e \<in> set es. \<exists>z. el_size e = Some z \<and> z < font_size_threshold \<Longrightarrow> collect_sized es = Inr []"
  by (induction es) (auto simp: err_bind_def key_lookup_def)

text \<open>
  Claim C4, as the code has it. When every element of the stream has a size below 8.0
  (the empty stream included), \<open>analyze_font_distribution\<close> returns the empty hierarchy, not
  the fallback one. The fallback hierarchy with 16, 14, 12 and 10 is what
  \<open>_create_font_hierarchy\<close> returns for an empty list of clusters, and its four sizes are the
  defaults that the lookups of the detector give on the empty hierarchy.
\<close>

theorem no_qualifying_size_gives_empty_hierarchy:
  assumes "\<forall>e \<in> set (concat pages). \<exists>z. el_size e = Some z \<and> z < 8"
  shows "analyze_font_distribution pages
           = Inr \<lparr>fa_sizes = [], fa_clusters = [], fa_hierarchy = []\<rparr>
    \<and> create_font_hierarchy [] size_to_elements = Inr fallback_hierarchy
    \<and> hget [] Title 16 = 16 \<and> hget [] H1 14 = 14 \<and> hget [] H2 12 = 12 \<and> hget [] H3 10 = 10"
proof -
  have "collect_sized (concat pages) = Inr []"
    using assms by (intro collect_sized_small) (simp add: font_size_threshold_def)
  then show ?thesis
    by (simp add: analyze_font_distribution_def err_bind_def create_font_hierarchy_def
        sorted_clusters_def hget_def get_default_def)
qed

theorem no_qualifying_size_gives_empty_hierarchy_witness:
  "analyze_font_distribution [[tiny]]
     = Inr \<lparr>fa_sizes = [], fa_clusters = [], fa_hierarchy = []\<rparr>
   \<and> create_font_hierarchy [] (\<lambda>sz. []) = Inr fallback_hierarchy"
proof -
  have "\<forall>e \<in> set (concat [[tiny]]). \<exists>z. el_size e = Some z \<and> z < 8"
    by (simp add: tiny_def)
  from no_qualifying_size_gives_empty_hierarchy [OF this, of "\<lambda>sz. []"] show ?thesis
    by simp
qed

theorem fallback_hierarchy_counterexample:
  "analyze_font_distribution [[tiny]]
     = Inr \<lparr>fa_sizes = [], fa_clusters = [], fa_hierarchy = []\<rparr>
   \<and> fa_hierarchy \<lparr>fa_sizes = [], fa_clusters = [], fa_hierarchy = []\<rparr> \<noteq> fallback_hierarchy"
  by code_simp

subsection \<open>Post-processing its own output\<close>

lemma clean_from_length:
  "e \<in> set (clean_from seen hs) \<Longrightarrow> length (h_text e) > 2"
  by (induction hs arbitrary: seen) (auto simp: Let_def split: if_splits)

lemma clean_from_id:
  fixes xs :: "heading list"
  assumes "distinct (map (\<lambda>e. lower (h_text e)) xs)"
    and "\<forall>e \<in> set xs. lower (h_text e) \<notin> seen"
    and "\<forall>e \<in> set xs. clean_heading_text (h_text e) = h_text e"
    and "\<forall>e \<in> set xs. length (h_text e) > 2"
  shows "clean_from seen xs = xs"
  using assms
proof (induction xs arbitrary: seen)
  case Nil
  then show ?case by simp
next
  case (Cons x xs)
  have x: "clean_heading_text (h_text x) = h_text x" "length (h_text x) > 2"
    "lower (h_text x) \<notin> seen"
    using Cons.prems by simp_all
  have "clean_from (insert (lower (h_text x)) seen) xs = xs"
  proof (rule Cons.IH)
    show "distinct (map (\<lambda>e. lower (h_text e)) xs)" using Cons.prems(1) by simp
    show "\<forall>e\<in>set xs. lower (h_text e) \<notin> insert (lower (h_text x)) seen"
    proof
      fix e assume e: "e \<in> set xs"
      then have "lower (h_text e) \<in> (\<lambda>e. lower (h_text e)) ` set xs" by (rule imageI)
      moreover have "lower (h_text x) \<notin> (\<lambda>e. lower (h_text e)) ` set xs"
        using Cons.prems(1) by simp
      ultimately have "lower (h_text e) \<noteq> lower (h_text x)" by metis
      moreover have "lower (h_text e) \<notin> seen" using Cons.prems(2) e by simp
      ultimately show "lower (h_text e) \<notin> insert (lower (h_text x)) seen" by simp
    qed
    show "\<forall>e\<in>set xs. clean_heading_text (h_text e) = h_text e" using Cons.prems(3) by simp
    show "\<forall>e\<in>set xs. 2 < length (h_text e)" using Cons.prems(4) by simp
  qed
  then show ?case using x by (simp add: Let_def)
qed

lemma post_process_facts:
  "e \<in> set (post_process_outline hs) \<Longrightarrow> h_level e \<noteq> Title \<and> length (h_text e) > 2"
proof -
  assume "e \<in> set (post_process_outline hs)"
  then have m: "e \<in> set (clean_from {} (filter (\<lambda>h. h_level h \<noteq> Title) hs))"
    by (auto simp: post_process_outline_def Let_def split: if_splits)
  from clean_from_level[OF m] have "h_level e \<noteq> Title" by auto
  with clean_from_length[OF m] show ?thesis by simp
qed

text \<open>
  Claim C9, as the code has it. Post-processing is idempotent on every list of classified
  headings whose output texts the cleaning leaves unchanged: then the removal of titles,
  the length filter, the removal of duplicates and the sort are all without effect on the
  output. The cleaning itself is not idempotent: one pass strips one trailing run of
  punctuation, and a text such as "Intro ( (" loses one parenthesis in each pass.
\<close>

theorem post_process_idempotent_on_clean_texts:
  assumes fp: "\<forall>e \<in> set (post_process_outline hs). clean_heading_text (h_text e) = h_text e"
  shows "post_process_outline (post_process_outline hs) = post_process_outline hs"
proof -
  define out where "out = post_process_outline hs"
  have d: "distinct (map (\<lambda>e. lower (h_text e)) out)"
    and s: "sorted (map (\<lambda>e. (h_page e, get_level_priority (h_level e))) out)"
    by (simp_all add: out_def post_process_outline_def Let_def distinct_map_sort_key
        clean_from_distinct)
  have f: "filter (\<lambda>h. h_level h \<noteq> Title) out = out"
    using post_process_facts[of _ hs] unfolding out_def by (simp add: filter_id_conv)
  have c: "clean_from {} out = out"
    using d fp post_process_facts[of _ hs] unfolding out_def
    by (intro clean_from_id) simp_all
  have "post_process_outline out = out"
    by (simp add: post_process_outline_def f c sort_key_id_if_sorted[OF s])
  then show ?thesis by (simp add: out_def)
qed

theorem post_process_idempotent_on_clean_texts_witness:
  "post_process_outline sample_headings =
     [\<lparr>h_level = H1, h_text = ''Introduction'', h_page = 1\<rparr>,
      \<lparr>h_level = H2, h_text = ''Background'', h_page = 2\<rparr>]
   \<and> post_process_outline (post_process_outline sample_headings)
       = post_process_outline sample_headings"
proof -
  have ev: "post_process_outline sample_headings =
     [\<lparr>h_level = H1, h_text = ''Introduction'', h_page = 1\<rparr>,
      \<lparr>h_level = H2, h_text = ''Background'', h_page = 2\<rparr>]"
    by code_simp
  have c1: "clean_heading_text ''Introduction'' = ''Introduction''" by code_simp
  have c2: "clean_heading_text ''Background'' = ''Background''" by code_simp
  have hyp: "\<forall>e \<in> set (post_process_outline sample_headings).
      clean_heading_text (h_text e) = h_text e"
    unfolding ev using c1 c2 by simp
  from post_process_idempotent_on_clean_texts [OF hyp] ev show ?thesis
    by simp
qed

theorem post_process_idempotent_counterexample:
  "post_process_outline nested_paren = [\<lparr>h_level = H1, h_text = ''Intro ('', h_page = 1\<rparr>]
   \<and> post_process_outline (post_process_outline nested_paren)
       = [\<lparr>h_level = H1, h_text = ''Intro'', h_page = 1\<rparr>]
   \<and> post_process_outline (post_process_outline nested_paren)
       \<noteq> post_process_outline nested_paren"
  by code_simp

subsection \<open>The levels below the title\<close>










subsection \<open>The keys that scoring needs\<close>











subsection \<open>The hierarchy as state of the detector\<close>

lemma analyze_outline_stateless:
  "fst (analyze_document_structure s1 pages) = fst (analyze_document_structure s2 pages)"
  by (simp add: analyze_document_structure_def Let_def split: sum.split)

lemma analyze_state_after:
  "fst (analyze_document_structure s1 pages) = Inr outline \<Longrightarrow> pages \<noteq> [] \<Longrightarrow>
   \<exists>fa. analyze_font_distribution pages = Inr fa
     \<and> snd (analyze_document_structure s1 pages) = Some (fa_hierarchy fa)
     \<and> snd (analyze_document_structure s2 pages) = Some (fa_hierarchy fa)"
  by (cases "analyze_font_distribution pages")
     (simp_all add: analyze_document_structure_def Let_def)

text \<open>
  Claim C7, as the code has it. The hierarchy is the attribute \<open>self.font_hierarchy\<close> of the
  detector: \<open>analyze_document_structure\<close> assigns it and \<open>find_document_title\<close> reads it.
  What holds for every document and every two earlier states of the detector is this: the
  outline is the same; when the analysis returned, the title found right after it is the
  same; and, for a document with a page, the state that the analysis leaves is the
  hierarchy of this document. The title found for a document is not a function of the
  document alone: after the analysis of another document it depends on that document.
\<close>

theorem analysis_then_title_ignores_earlier_state:
  "fst (analyze_document_structure s1 pages) = fst (analyze_document_structure s2 pages)
   \<and> (fst (analyze_document_structure s1 pages) = Inr outline \<longrightarrow>
        find_document_title (snd (analyze_document_structure s1 pages)) pages
          = find_document_title (snd (analyze_document_structure s2 pages)) pages)
   \<and> (fst (analyze_document_structure s1 pages) = Inr outline \<and> pages \<noteq> [] \<longrightarrow>
        (\<exists>fa. analyze_font_distribution pages = Inr fa
           \<and> snd (analyze_document_structure s1 pages) = Some (fa_hierarchy fa)))"
proof (intro conjI impI)
  show "fst (analyze_document_structure s1 pages) = fst (analyze_document_structure s2 pages)"
    by (rule analyze_outline_stateless)
next
  assume a: "fst (analyze_document_structure s1 pages) = Inr outline"
  show "find_document_title (snd (analyze_document_structure s1 pages)) pages
          = find_document_title (snd (analyze_document_structure s2 pages)) pages"
  proof (cases "pages = []")
    case True
    then show ?thesis by (simp add: find_document_title_def)
  next
    case False
    from analyze_state_after[OF a False, of s2] show ?thesis by auto
  qed
next
  assume "fst (analyze_document_structure s1 pages) = Inr outline \<and> pages \<noteq> []"
  then show "\<exists>fa. analyze_font_distribution pages = Inr fa
           \<and> snd (analyze_document_structure s1 pages) = Some (fa_hierarchy fa)"
    using analyze_state_after[of s1 pages outline s1] by blast
qed

theorem analysis_then_title_ignores_earlier_state_witness:
  "fst (analyze_document_structure None report)
     = Inr [\<lparr>h_level = H1, h_text = ''Introduction'', h_page = 1\<rparr>,
            \<lparr>h_level = H1, h_text = ''Overview Notes'', h_page = 1\<rparr>]
   \<and> fst (analyze_document_structure (Some [(Title, 30)]) report)
       = fst (analyze_document_structure None report)
   \<and> find_document_title (snd (analyze_document_structure (Some [(Title, 30)]) report)) report
       = Inr ''Overview Notes''"
proof -
  have ev: "fst (analyze_document_structure None report)
     = Inr [\<lparr>h_level = H1, h_text = ''Introduction'', h_page = 1\<rparr>,
            \<lparr>h_level = H1, h_text = ''Overview Notes'', h_page = 1\<rparr>]"
    by code_simp
  have t: "find_document_title (snd (analyze_document_structure None report)) report
       = Inr ''Overview Notes''"
    by code_simp
  from analysis_then_title_ignores_earlier_state [of None report "Some [(Title, 30)]"
      "[\<lparr>h_level = H1, h_text = ''Introduction'', h_page = 1\<rparr>,
        \<lparr>h_level = H1, h_text = ''Overview Notes'', h_page = 1\<rparr>]"] ev t
  show ?thesis by simp
qed

theorem hierarchy_is_detector_state_counterexample:
  "snd (analyze_document_structure None small_print)
     = Some [(Title, 14), (H1, 12), (H2, 11), (H3, 10)]
   \<and> snd (analyze_document_structure None poster)
     = Some [(Title, 30), (H1, 28), (H2, 27), (H3, 26)]
   \<and> find_document_title (snd (analyze_document_structure None small_print)) report
     = Inr ''Introduction''
   \<and> find_document_title (snd (analyze_document_structure None poster)) report
     = Inr ''Overview Notes''
   \<and> ''Introduction'' \<noteq> ''Overview Notes''"
  by code_simp

subsection \<open>The title of the document\<close>



















end
